theory Spec2Isabelle
  imports Main
begin

section \<open>The AST node classes of \<^verbatim>\<open>ast.hpp\<close>\<close>

text \<open>
  The header declares the node classes of the abstract syntax tree: their fields, their
  constructors and, for the classes that mix in \<^verbatim>\<open>Vectorized<T>\<close>, the hook that runs after
  every push. This theory embeds those parts: an object is the value of its fields, a
  method that mutates \<^verbatim>\<open>this\<close> returns the new value of the object.

  The property macro \<^verbatim>\<open>ADD_PROPERTY(type, name)\<close> lives in \<^verbatim>\<open>ast_def_macros.hpp\<close>. Its
  expansion is fixed by its uses in \<^verbatim>\<open>ast.hpp\<close>: it declares a data member \<^verbatim>\<open>name_\<close> in the
  class where it stands (the constructors' initialiser lists name it, as
  \<^verbatim>\<open>has_reference_(r)\<close> in \<^verbatim>\<open>Selector\<close> and \<^verbatim>\<open>has_reference_(false)\<close> in \<^verbatim>\<open>Selector_Group\<close>),
  a getter \<^verbatim>\<open>name()\<close> and a setter \<^verbatim>\<open>name(value)\<close> (as \<^verbatim>\<open>has_reference(true)\<close> in
  \<^verbatim>\<open>Selector_Reference\<close>). None of them is virtual.
\<close>

subsection \<open>Errors, pointers, positions\<close>

text \<open>
  The header has no \<^verbatim>\<open>throw\<close>, no assertion and no error return. The only way an
  operation of it can fail to return a value is the unchecked \<^verbatim>\<open>elements_[i]\<close> of
  \<^verbatim>\<open>std::vector\<close>, whose behaviour is undefined out of range: \<open>Undefined_Behaviour\<close>.
  The other four constructors are the error kinds that the specification names; they are
  here so that statements about them can be written, and no definition below produces one.
\<close>

datatype error =
    IndexOutOfRange
  | ParameterOrderingViolation
  | ArgumentOrderingViolation
  | InvalidParameterDefault
  | Undefined_Behaviour

text \<open>
  A pointer to a node that no operation of the header dereferences (\<^verbatim>\<open>Expression*\<close>,
  \<^verbatim>\<open>String*\<close>, \<^verbatim>\<open>Selector*\<close> inside statements, ...) is an address; \<open>None\<close> is the null
  pointer \<^verbatim>\<open>0\<close>. A pointer that is dereferenced, as the element handed to a hook is, is
  modelled by the object it points to at that moment. Where the code tests a pointer
  against null before it dereferences it, the pointer is an \<open>option\<close> of the object; the
  hooks dereference the pushed pointer without a test, so a pushed element is an object.
\<close>

type_synonym addr = nat
type_synonym ptr = "addr option"

text \<open>\<^verbatim>\<open>AST_Node(string p, size_t l) : path_(p), line_(l)\<close>\<close>

record AST_Node =
  path :: string
  line :: nat

definition AST_Node :: "string \<Rightarrow> nat \<Rightarrow> AST_Node" where
  "AST_Node p l = \<lparr>path = p, line = l\<rparr>"

text \<open>An empty statement \<^verbatim>\<open>;\<close> or an empty block \<^verbatim>\<open>{ }\<close>: the state is unchanged.\<close>

definition skip :: "'s \<Rightarrow> 's" where
  "skip s = s"

subsection \<open>The mixin \<^verbatim>\<open>Vectorized<T>\<close>\<close>

text \<open>
  An object of a class that derives from \<^verbatim>\<open>Vectorized<T>\<close> is the vector \<^verbatim>\<open>elements_\<close>
  together with the \<open>members\<close> of the rest of the object (the other base classes and the
  members of the class itself). \<^verbatim>\<open>elements_\<close> is private to the mixin, so the hook
  \<^verbatim>\<open>adjust_after_pushing\<close> of a subclass, which runs on the object after the
  \<^verbatim>\<open>push_back\<close>, can assign those members only: a hook is a function from the pushed element
  and the object as it is after the push to their new value.
\<close>

datatype ('a, 'd) Vectorized = Vectorized (elements: "'a list") (members: 'd)

type_synonym ('a, 'd) hook = "'a \<Rightarrow> ('a, 'd) Vectorized \<Rightarrow> 'd"

text \<open>\<^verbatim>\<open>Vectorized(size_t s = 0) : elements_(vector<T>()) { elements_.reserve(s); }\<close>\<close>

definition Vectorized_new :: "nat \<Rightarrow> 'd \<Rightarrow> ('a, 'd) Vectorized" where
  "Vectorized_new s d = Vectorized [] d"

text \<open>\<^verbatim>\<open>virtual void adjust_after_pushing(T element) { }\<close>\<close>

definition adjust_after_pushing :: "('a, 'd) hook" where
  "adjust_after_pushing element this = skip (members this)"

definition length_V :: "('a, 'd) Vectorized \<Rightarrow> nat" where
  "length_V this = length (elements this)"

definition empty_V :: "('a, 'd) Vectorized \<Rightarrow> bool" where
  "empty_V this = (elements this = [])"

text \<open>
  \<^verbatim>\<open>T& operator[](size_t i) { return elements_[i]; }\<close>: no bounds check; out of range the
  behaviour is undefined.
\<close>

definition operator_index :: "('a, 'd) Vectorized \<Rightarrow> nat \<Rightarrow> error + 'a" where
  "operator_index this i =
     (if i < length (elements this) then Inr (elements this ! i) else Inl Undefined_Behaviour)"

text \<open>
  \<^verbatim>\<open>operator<<\<close>: \<^verbatim>\<open>elements_.push_back(element); adjust_after_pushing(element);\<close>
  The hook is the virtual method of the dynamic class of \<^verbatim>\<open>this\<close>, here a parameter.
\<close>

definition push_back :: "('a, 'd) Vectorized \<Rightarrow> 'a \<Rightarrow> ('a, 'd) Vectorized" where
  "push_back this element = Vectorized (elements this @ [element]) (members this)"

definition operator_shl :: "('a, 'd) hook \<Rightarrow> ('a, 'd) Vectorized \<Rightarrow> 'a \<Rightarrow> ('a, 'd) Vectorized" where
  "operator_shl adjust this element =
     (let pushed = push_back this element
      in Vectorized (elements pushed) (adjust element pushed))"

text \<open>
  \<^verbatim>\<open>operator+=(Vectorized* v)\<close>:
  \<^verbatim>\<open>for (size_t i = 0, L = v->length(); i < L; ++i) *this << (*v)[i];\<close>
  The argument is a pointer and may point to \<^verbatim>\<open>this\<close> itself, so the loop runs on a store
  of sequence objects: \<open>this\<close> and \<open>v\<close> are addresses, every iteration reads \<open>v\<close> from
  the current store and writes \<open>this\<close> back. \<open>L\<close> is read once, before the loop.
\<close>

type_synonym ('a, 'd) store = "addr \<Rightarrow> ('a, 'd) Vectorized"

function plus_eq_loop ::
  "('a, 'd) hook \<Rightarrow> addr \<Rightarrow> addr \<Rightarrow> nat \<Rightarrow> nat \<Rightarrow> ('a, 'd) store \<Rightarrow> error + ('a, 'd) store" where
  "plus_eq_loop adjust this v L i h =
     (if i < L then
        (case operator_index (h v) i of
           Inl e \<Rightarrow> Inl e
         | Inr element \<Rightarrow>
             plus_eq_loop adjust this v L (Suc i) (h(this := operator_shl adjust (h this) element)))
      else Inr h)"
  by pat_completeness auto
termination
  by (relation "measure (\<lambda>(adjust, this, v, L, i, h). L - i)") auto

declare plus_eq_loop.simps [simp del]

definition operator_plus_eq ::
  "('a, 'd) hook \<Rightarrow> addr \<Rightarrow> addr \<Rightarrow> ('a, 'd) store \<Rightarrow> error + ('a, 'd) store" where
  "operator_plus_eq adjust this v h = plus_eq_loop adjust this v (length_V (h v)) 0 h"

text \<open>A sequence built by pushing the elements of a list, one \<^verbatim>\<open>operator<<\<close> each, in order.\<close>

definition pushed_all :: "('a, 'd) hook \<Rightarrow> ('a, 'd) Vectorized \<Rightarrow> 'a list \<Rightarrow> ('a, 'd) Vectorized" where
  "pushed_all adjust this es = foldl (operator_shl adjust) this es"

text \<open>
  To observe the calls of the hook, a sequence class whose hook keeps a log: each call
  appends the element it was called with and the vector that it finds. (An instrument of
  this theory; the header has no such class.)
\<close>

definition logging_hook :: "('a, ('a \<times> 'a list) list) hook" where
  "logging_hook element this = members this @ [(element, elements this)]"

subsection \<open>Statements and blocks\<close>

text \<open>
  \<^verbatim>\<open>class Block : public Statement, public Vectorized<Statement*>\<close> with the properties
  \<^verbatim>\<open>is_root\<close>, \<^verbatim>\<open>has_hoistable\<close>, \<^verbatim>\<open>has_non_hoistable\<close>. The fields of a block besides the
  vector:
\<close>

record Block_fields = AST_Node +
  is_root :: bool
  has_hoistable :: bool
  has_non_hoistable :: bool

datatype Definition_Type = MIXIN | FUNCTION

text \<open>
  The concrete statement classes, one constructor each. The arguments are those of the
  C++ constructor in its order, the path and the line as one \<open>AST_Node\<close>; the block of a
  \<^verbatim>\<open>Has_Block\<close> is an \<open>option\<close> (the pointer may be null). \<^verbatim>\<open>Import\<close> carries its two
  vectors \<^verbatim>\<open>files_\<close> and \<^verbatim>\<open>urls_\<close>. A block is a statement too (\<open>Block_Statement\<close>). The
  class \<^verbatim>\<open>If\<close> is \<open>If_Statement\<close> here.
\<close>

datatype Statement =
    Block_Statement "(Statement, Block_fields) Vectorized"
  | Ruleset AST_Node ptr "(Statement, Block_fields) Vectorized option"
  | Propset AST_Node ptr "(Statement, Block_fields) Vectorized option"
  | Media_Block AST_Node ptr "(Statement, Block_fields) Vectorized option"
  | At_Rule AST_Node string ptr "(Statement, Block_fields) Vectorized option"
  | Declaration AST_Node ptr ptr bool
  | Assignment AST_Node string ptr bool
  | Import AST_Node "string list" "ptr list"
  | Import_Stub AST_Node string
  | Warning AST_Node ptr
  | Comment AST_Node ptr
  | If_Statement AST_Node ptr "(Statement, Block_fields) Vectorized option"
      "(Statement, Block_fields) Vectorized option"
  | For AST_Node string ptr ptr "(Statement, Block_fields) Vectorized option" bool
  | Each AST_Node string ptr "(Statement, Block_fields) Vectorized option"
  | While AST_Node ptr "(Statement, Block_fields) Vectorized option"
  | Return AST_Node ptr
  | Content AST_Node
  | Extend AST_Node ptr
  | Definition AST_Node string ptr "(Statement, Block_fields) Vectorized option" Definition_Type
  | Mixin_Call AST_Node string ptr "(Statement, Block_fields) Vectorized option"

type_synonym Block = "(Statement, Block_fields) Vectorized"

text \<open>
  \<^verbatim>\<open>virtual bool is_hoistable() { return false; }\<close> in \<^verbatim>\<open>Statement\<close>, overridden by
  \<^verbatim>\<open>bool is_hoistable() { return true; }\<close> in \<^verbatim>\<open>Ruleset\<close> and nowhere else.
\<close>

fun is_hoistable :: "Statement \<Rightarrow> bool" where
  "is_hoistable (Ruleset n s b) = True"
| "is_hoistable _ = False"

text \<open>
  \<^verbatim>\<open>Block(string p, size_t l, size_t s = 0, bool r = false)
  : Statement(p, l), Vectorized(s), is_root_(r), has_hoistable_(false), has_non_hoistable_(false)\<close>
\<close>

definition Block :: "string \<Rightarrow> nat \<Rightarrow> nat \<Rightarrow> bool \<Rightarrow> Block" where
  "Block p l s r =
     Vectorized_new s
       \<lparr>path = p, line = l, is_root = r, has_hoistable = False, has_non_hoistable = False\<rparr>"

text \<open>
  \<^verbatim>\<open>void adjust_after_pushing(Statement* s)
  { if (s->is_hoistable()) has_hoistable_ = true; else has_non_hoistable_ = false; }\<close>
\<close>

definition adjust_after_pushing_Block :: "(Statement, Block_fields) hook" where
  "adjust_after_pushing_Block s this =
     (if is_hoistable s then (members this)\<lparr>has_hoistable := True\<rparr>
      else (members this)\<lparr>has_non_hoistable := False\<rparr>)"

subsection \<open>Parameters\<close>

record Parameter = AST_Node +
  Parameter_name :: string
  default_value :: ptr
  is_rest_parameter :: bool

text \<open>
  \<^verbatim>\<open>Parameter(string p, size_t l, string n, Expression* def = 0, bool rest = false)
  : AST_Node(p, l), name_(n), default_value_(def), is_rest_parameter_(rest)
  { /* TO-DO: error if default_value && is_packed */ }\<close>
\<close>

definition Parameter :: "string \<Rightarrow> nat \<Rightarrow> string \<Rightarrow> ptr \<Rightarrow> bool \<Rightarrow> Parameter" where
  "Parameter p l n def rest =
     skip \<lparr>path = p, line = l, Parameter_name = n, default_value = def, is_rest_parameter = rest\<rparr>"

record Parameters_fields = AST_Node +
  has_optional_parameters :: bool
  has_rest_parameter :: bool

type_synonym Parameters = "(Parameter, Parameters_fields) Vectorized"

text \<open>
  \<^verbatim>\<open>Parameters(string p, size_t l)
  : AST_Node(p, l), Vectorized(), has_optional_parameters_(false), has_rest_parameter_(false)\<close>
\<close>

definition Parameters :: "string \<Rightarrow> nat \<Rightarrow> Parameters" where
  "Parameters p l =
     Vectorized_new 0
       \<lparr>path = p, line = l, has_optional_parameters = False, has_rest_parameter = False\<rparr>"

text \<open>
  The hook of \<^verbatim>\<open>Parameters\<close>. Every \<^verbatim>\<open>if (...) ; // error\<close> of the source is a test
  whose branch is the empty statement: \<open>if_then_skip\<close>.
  \<^verbatim>\<open>
  if (p->default_value()) {
    if (has_rest_parameter_) ; // error
    has_optional_parameters_ = true;
  }
  else if (p->is_rest_parameter()) {
    if (has_rest_parameter_) ; // error
    if (has_optional_parameters_) ; // different error
    has_rest_parameter_ = true;
  }
  else {
    if (has_rest_parameter_) ; // error
    if (has_optional_parameters_) ; // different error
  }\<close>
\<close>

definition if_then_skip :: "bool \<Rightarrow> 's \<Rightarrow> 's" where
  "if_then_skip c s = (if c then skip s else s)"

definition adjust_after_pushing_Parameters :: "(Parameter, Parameters_fields) hook" where
  "adjust_after_pushing_Parameters p this =
     (let f = members this in
      if default_value p \<noteq> None then
        (let f1 = if_then_skip (has_rest_parameter f) f
         in f1\<lparr>has_optional_parameters := True\<rparr>)
      else if is_rest_parameter p then
        (let f1 = if_then_skip (has_rest_parameter f) f;
             f2 = if_then_skip (has_optional_parameters f1) f1
         in f2\<lparr>has_rest_parameter := True\<rparr>)
      else
        (let f1 = if_then_skip (has_rest_parameter f) f;
             f2 = if_then_skip (has_optional_parameters f1) f1
         in f2))"

subsection \<open>Arguments\<close>

record Argument = AST_Node +
  "value" :: ptr
  Argument_name :: string
  is_rest_argument :: bool

text \<open>
  \<^verbatim>\<open>Argument(string p, size_t l, Expression* val, string n = "", bool rest = false)
  : AST_Node(p, l), value_(val), name_(n), is_rest_argument_(rest)
  { if (name_ != "" && is_rest_argument_) { /* error */ } }\<close>
\<close>

definition Argument :: "string \<Rightarrow> nat \<Rightarrow> ptr \<Rightarrow> string \<Rightarrow> bool \<Rightarrow> Argument" where
  "Argument p l val n rest =
     (let this = \<lparr>path = p, line = l, value = val, Argument_name = n, is_rest_argument = rest\<rparr>
      in if_then_skip (Argument_name this \<noteq> [] \<and> is_rest_argument this) this)"

record Arguments_fields = AST_Node +
  has_named_arguments :: bool
  has_rest_argument :: bool

type_synonym Arguments = "(Argument, Arguments_fields) Vectorized"

text \<open>
  \<^verbatim>\<open>Arguments(string p, size_t l)
  : AST_Node(p, l), Vectorized(), has_named_arguments_(false), has_rest_argument_(false)\<close>
\<close>

definition Arguments :: "string \<Rightarrow> nat \<Rightarrow> Arguments" where
  "Arguments p l =
     Vectorized_new 0
       \<lparr>path = p, line = l, has_named_arguments = False, has_rest_argument = False\<rparr>"

text \<open>
  The hook of \<^verbatim>\<open>Arguments\<close>, of the same shape:
  \<^verbatim>\<open>
  if (!a->name().empty()) {
    if (has_rest_argument_) ; // error
    has_named_arguments_ = true;
  }
  else if (a->is_rest_argument()) {
    if (has_rest_argument_) ; // error
    if (has_named_arguments_) ; // different error
    has_rest_argument_ = true;
  }
  else {
    if (has_rest_argument_) ; // error
    if (has_named_arguments_) ; // error
  }\<close>
\<close>

definition adjust_after_pushing_Arguments :: "(Argument, Arguments_fields) hook" where
  "adjust_after_pushing_Arguments a this =
     (let f = members this in
      if Argument_name a \<noteq> [] then
        (let f1 = if_then_skip (has_rest_argument f) f
         in f1\<lparr>has_named_arguments := True\<rparr>)
      else if is_rest_argument a then
        (let f1 = if_then_skip (has_rest_argument f) f;
             f2 = if_then_skip (has_named_arguments f1) f1
         in f2\<lparr>has_rest_argument := True\<rparr>)
      else
        (let f1 = if_then_skip (has_rest_argument f) f;
             f2 = if_then_skip (has_named_arguments f1) f1
         in f2))"

subsection \<open>Selectors\<close>

text \<open>
  \<^verbatim>\<open>class Selector : public AST_Node\<close> with the properties \<^verbatim>\<open>has_reference\<close> and
  \<^verbatim>\<open>has_placeholder\<close>:
  \<^verbatim>\<open>Selector(string p, size_t l, bool r = false, bool h = false)
  : AST_Node(p, l), has_reference_(r), has_placeholder_(h)\<close>
\<close>

record Selector = AST_Node +
  has_reference :: bool
  has_placeholder :: bool

definition Selector :: "string \<Rightarrow> nat \<Rightarrow> bool \<Rightarrow> bool \<Rightarrow> Selector" where
  "Selector p l r h = \<lparr>path = p, line = l, has_reference = r, has_placeholder = h\<rparr>"

text \<open>\<^verbatim>\<open>Simple_Selector(string p, size_t l) : Selector(p, l)\<close>\<close>

definition Simple_Selector :: "string \<Rightarrow> nat \<Rightarrow> Selector" where
  "Simple_Selector p l = Selector p l False False"

text \<open>
  The objects of the concrete simple selector classes: the \<^verbatim>\<open>Selector\<close> base part, then the
  properties of the class. The wrapped selector of a \<^verbatim>\<open>Negated_Selector\<close> is a pointer
  and may be null. (The property \<^verbatim>\<open>selector\<close> of \<^verbatim>\<open>Selector_Reference\<close>, which its
  constructor leaves uninitialised and nothing in the header reads, is left out.)
\<close>

datatype Simple_Selector =
    Selector_Reference_obj Selector
  | Selector_Placeholder_obj Selector string
  | Type_Selector_obj Selector string
  | Selector_Qualifier_obj Selector string
  | Attribute_Selector_obj Selector string string string
  | Pseudo_Selector_obj Selector string ptr
  | Negated_Selector_obj Selector "Simple_Selector option"

text \<open>The \<^verbatim>\<open>Selector\<close> base part of a simple selector, on which the getters work.\<close>

fun Selector_part :: "Simple_Selector \<Rightarrow> Selector" where
  "Selector_part (Selector_Reference_obj b) = b"
| "Selector_part (Selector_Placeholder_obj b n) = b"
| "Selector_part (Type_Selector_obj b n) = b"
| "Selector_part (Selector_Qualifier_obj b n) = b"
| "Selector_part (Attribute_Selector_obj b n m v) = b"
| "Selector_part (Pseudo_Selector_obj b n e) = b"
| "Selector_part (Negated_Selector_obj b s) = b"

text \<open>
  The constructors.
  \<^verbatim>\<open>Selector_Reference(string p, size_t l) : Simple_Selector(p, l) { has_reference(true); }\<close>
  \<^verbatim>\<open>Selector_Placeholder(string p, size_t l, string n)
  : Simple_Selector(p, l), name_(n) { has_placeholder(true); }\<close>
  The others only initialise their base and their members.
\<close>

definition Selector_Reference :: "string \<Rightarrow> nat \<Rightarrow> Simple_Selector" where
  "Selector_Reference p l = Selector_Reference_obj ((Simple_Selector p l)\<lparr>has_reference := True\<rparr>)"

definition Selector_Placeholder :: "string \<Rightarrow> nat \<Rightarrow> string \<Rightarrow> Simple_Selector" where
  "Selector_Placeholder p l n =
     Selector_Placeholder_obj ((Simple_Selector p l)\<lparr>has_placeholder := True\<rparr>) n"

definition Type_Selector :: "string \<Rightarrow> nat \<Rightarrow> string \<Rightarrow> Simple_Selector" where
  "Type_Selector p l n = Type_Selector_obj (Simple_Selector p l) n"

definition Selector_Qualifier :: "string \<Rightarrow> nat \<Rightarrow> string \<Rightarrow> Simple_Selector" where
  "Selector_Qualifier p l n = Selector_Qualifier_obj (Simple_Selector p l) n"

definition Attribute_Selector ::
  "string \<Rightarrow> nat \<Rightarrow> string \<Rightarrow> string \<Rightarrow> string \<Rightarrow> Simple_Selector" where
  "Attribute_Selector p l n m v = Attribute_Selector_obj (Simple_Selector p l) n m v"

definition Pseudo_Selector :: "string \<Rightarrow> nat \<Rightarrow> string \<Rightarrow> ptr \<Rightarrow> Simple_Selector" where
  "Pseudo_Selector p l n expr = Pseudo_Selector_obj (Simple_Selector p l) n expr"

definition Negated_Selector :: "string \<Rightarrow> nat \<Rightarrow> Simple_Selector option \<Rightarrow> Simple_Selector" where
  "Negated_Selector p l sel = Negated_Selector_obj (Simple_Selector p l) sel"

text \<open>
  \<^verbatim>\<open>class Simple_Selector_Sequence : public Selector, public Vectorized<Simple_Selector*>\<close>
  declares no property of its own: its flags are those of its \<^verbatim>\<open>Selector\<close> base.
  \<^verbatim>\<open>Simple_Selector_Sequence(string p, size_t l, size_t s = 0) : Selector(p, l), Vectorized(s)\<close>
\<close>

type_synonym Simple_Selector_Sequence = "(Simple_Selector, Selector) Vectorized"

definition Simple_Selector_Sequence :: "string \<Rightarrow> nat \<Rightarrow> nat \<Rightarrow> Simple_Selector_Sequence" where
  "Simple_Selector_Sequence p l s = Vectorized_new s (Selector p l False False)"

text \<open>
  \<^verbatim>\<open>void adjust_after_pushing(Simple_Selector* s)
  { has_reference(has_reference() || s->has_reference());
    has_placeholder(has_placeholder() || s->has_placeholder()); }\<close>
\<close>

definition adjust_after_pushing_Simple_Selector_Sequence :: "(Simple_Selector, Selector) hook" where
  "adjust_after_pushing_Simple_Selector_Sequence s this =
     (let f1 = (members this)\<lparr>has_reference :=
                  has_reference (members this) \<or> has_reference (Selector_part s)\<rparr>;
          f2 = f1\<lparr>has_placeholder := has_placeholder f1 \<or> has_placeholder (Selector_part s)\<rparr>
      in f2)"

text \<open>
  \<^verbatim>\<open>class Selector_Combination : public Selector\<close> has the properties \<^verbatim>\<open>combinator\<close>,
  \<^verbatim>\<open>head\<close>, \<^verbatim>\<open>tail\<close> and, declared again in this class,
  \<^verbatim>\<open>ADD_PROPERTY(bool, has_reference); ADD_PROPERTY(bool, has_placeholder);\<close>
  So an object has the two flags of its \<^verbatim>\<open>Selector\<close> base and two more members of the
  same names of its own, which hide the base's: \<^verbatim>\<open>c->has_reference()\<close> on a
  \<^verbatim>\<open>Selector_Combination* c\<close> is the getter of the class and reads the class's member.
\<close>

datatype Combinator = ANCESTOR_OF | PARENT_OF | PRECEDES | ADJACENT_TO

datatype Selector_Combination =
  Selector_Combination_obj
    (Selector_base: Selector)
    (combinator: Combinator)
    (head: "(Simple_Selector, Selector) Vectorized option")
    (tail: "Selector_Combination option")
    (Selector_Combination_has_reference: bool)
    (Selector_Combination_has_placeholder: bool)

text \<open>
  \<^verbatim>\<open>Selector_Combination(string p, size_t l, Combinator c,
                       Simple_Selector_Sequence* h, Selector_Combination* t)
  : Selector(p, l, h && h->has_reference() || t && t->has_reference(),
                   h && h->has_placeholder() || t && t->has_placeholder()),
    combinator_(c), head_(h), tail_(t) { }\<close>
  The initialiser list sets the base's flags and does not name the class's own
  \<^verbatim>\<open>has_reference_\<close> and \<^verbatim>\<open>has_placeholder_\<close>, and the body is empty: these two members
  keep whatever the storage of the object held. That content is the last two arguments
  here. \<^verbatim>\<open>h\<close> is a \<^verbatim>\<open>Simple_Selector_Sequence*\<close>, whose getter is the base's; \<^verbatim>\<open>t\<close> is a
  \<^verbatim>\<open>Selector_Combination*\<close>, whose getter is the class's.
\<close>

definition Selector_Combination ::
  "string \<Rightarrow> nat \<Rightarrow> Combinator \<Rightarrow> Simple_Selector_Sequence option \<Rightarrow> Selector_Combination option
   \<Rightarrow> bool \<Rightarrow> bool \<Rightarrow> Selector_Combination" where
  "Selector_Combination p l c h t storage_r storage_p =
     Selector_Combination_obj
       (Selector p l
          ((case h of None \<Rightarrow> False | Some hs \<Rightarrow> has_reference (members hs)) \<or>
           (case t of None \<Rightarrow> False | Some ts \<Rightarrow> Selector_Combination_has_reference ts))
          ((case h of None \<Rightarrow> False | Some hs \<Rightarrow> has_placeholder (members hs)) \<or>
           (case t of None \<Rightarrow> False | Some ts \<Rightarrow> Selector_Combination_has_placeholder ts)))
       c h t storage_r storage_p"

text \<open>
  \<^verbatim>\<open>class Selector_Group : public Selector, public Vectorized<Selector_Combination*>\<close>
  declares \<^verbatim>\<open>has_reference\<close> and \<^verbatim>\<open>has_placeholder\<close> again as well, and initialises them:
  \<^verbatim>\<open>Selector_Group(string p, size_t l, size_t s = 0)
  : Selector(p, l), Vectorized(s), has_reference_(false), has_placeholder_(false)\<close>
\<close>

record Selector_Group_fields = Selector +
  Selector_Group_has_reference :: bool
  Selector_Group_has_placeholder :: bool

type_synonym Selector_Group = "(Selector_Combination, Selector_Group_fields) Vectorized"

definition Selector_Group :: "string \<Rightarrow> nat \<Rightarrow> nat \<Rightarrow> Selector_Group" where
  "Selector_Group p l s =
     Vectorized_new s
       \<lparr>path = p, line = l, has_reference = False, has_placeholder = False,
        Selector_Group_has_reference = False, Selector_Group_has_placeholder = False\<rparr>"

text \<open>
  \<^verbatim>\<open>void adjust_after_pushing(Selector_Combination* c)
  { has_reference_ |= c->has_reference(); has_placeholder_ |= c->has_placeholder(); }\<close>
\<close>

definition adjust_after_pushing_Selector_Group ::
  "(Selector_Combination, Selector_Group_fields) hook" where
  "adjust_after_pushing_Selector_Group c this =
     (let f1 = (members this)\<lparr>Selector_Group_has_reference :=
                  Selector_Group_has_reference (members this) \<or> Selector_Combination_has_reference c\<rparr>;
          f2 = f1\<lparr>Selector_Group_has_placeholder :=
                  Selector_Group_has_placeholder f1 \<or> Selector_Combination_has_placeholder c\<rparr>
      in f2)"

subsection \<open>The specification's reading of containment\<close>

text \<open>
  The specification speaks of the simple selectors that a selector contains "directly and
  transitively". These definitions follow its words, not the code: a simple selector
  contains itself and, when it is a negation, what the negated selector contains; a
  sequence contains what its elements contain.
\<close>

fun spec_contained :: "Simple_Selector \<Rightarrow> Simple_Selector list" where
  "spec_contained (Negated_Selector_obj b (Some s)) = Negated_Selector_obj b (Some s) # spec_contained s"
| "spec_contained s = [s]"

definition spec_contained_Sequence :: "Simple_Selector_Sequence \<Rightarrow> Simple_Selector list" where
  "spec_contained_Sequence this = concat (map spec_contained (elements this))"

definition spec_has_reference_Sequence :: "Simple_Selector_Sequence \<Rightarrow> bool" where
  "spec_has_reference_Sequence this =
     list_ex (\<lambda>s. has_reference (Selector_part s)) (spec_contained_Sequence this)"

definition spec_has_placeholder_Sequence :: "Simple_Selector_Sequence \<Rightarrow> bool" where
  "spec_has_placeholder_Sequence this =
     list_ex (\<lambda>s. has_placeholder (Selector_part s)) (spec_contained_Sequence this)"

section \<open>The ordered child sequence\<close>

lemma elements_operator_shl: "elements (operator_shl adjust this e) = elements this @ [e]"
  by (simp add: operator_shl_def push_back_def)

lemma members_operator_shl:
  "members (operator_shl adjust this e) = adjust e (Vectorized (elements this @ [e]) (members this))"
  by (simp add: operator_shl_def push_back_def)

lemma pushed_all_Nil: "pushed_all adjust this [] = this"
  by (simp add: pushed_all_def)

lemma pushed_all_Cons:
  "pushed_all adjust this (e # es) = pushed_all adjust (operator_shl adjust this e) es"
  by (simp add: pushed_all_def)

lemma pushed_all_snoc:
  "pushed_all adjust this (es @ [e]) = operator_shl adjust (pushed_all adjust this es) e"
  by (simp add: pushed_all_def)

lemma elements_pushed_all: "elements (pushed_all adjust this es) = elements this @ es"
  by (induction es arbitrary: this) (simp_all add: pushed_all_Nil pushed_all_Cons elements_operator_shl)

subsection \<open>\<^verbatim>\<open>operator+=\<close> is one \<^verbatim>\<open>operator<<\<close> per element\<close>

text \<open>
  The invariant of the loop: the first \<open>L\<close> elements of \<open>v\<close> are the elements \<open>es\<close> that
  \<open>v\<close> had when the loop began, also when \<open>v\<close> is \<open>this\<close> and grows with every push.
\<close>

lemma plus_eq_loop_unfold:
  "plus_eq_loop adjust this v L i h =
     (if i < L then
        (case operator_index (h v) i of
           Inl e \<Rightarrow> Inl e
         | Inr element \<Rightarrow>
             plus_eq_loop adjust this v L (Suc i) (h(this := operator_shl adjust (h this) element)))
      else Inr h)"
  by (rule plus_eq_loop.simps)

lemma plus_eq_loop_pushes:
  assumes "take L (elements (h v)) = es" and "i \<le> L" and "length es = L"
  shows "plus_eq_loop adjust this v L i h = Inr (h(this := pushed_all adjust (h this) (drop i es)))"
  using assms
proof (induction adjust this v L i h rule: plus_eq_loop.induct)
  case (1 adjust this v L i h)
  show ?case
  proof (cases "i < L")
    case False
    with "1.prems" have "drop i es = []" by simp
    with False show ?thesis
      by (subst plus_eq_loop_unfold) (simp add: pushed_all_Nil)
  next
    case True
    from "1.prems" have len: "L \<le> length (elements (h v))"
      by (metis length_take min.cobounded2 min.commute)
    from "1.prems" True have nth: "elements (h v) ! i = es ! i"
      by (metis nth_take)
    from True len have idx: "operator_index (h v) i = Inr (es ! i)"
      by (simp add: operator_index_def nth)
    let ?h = "h(this := operator_shl adjust (h this) (es ! i))"
    from "1.prems" len have pre: "take L (elements (?h v)) = es"
      by (auto simp add: elements_operator_shl)
    from True have suc: "Suc i \<le> L" by simp
    have "plus_eq_loop adjust this v L (Suc i) ?h =
            Inr (?h(this := pushed_all adjust (?h this) (drop (Suc i) es)))"
      by (rule "1.IH" [OF True idx pre suc "1.prems"(3)])
    then have step: "plus_eq_loop adjust this v L (Suc i) ?h =
            Inr (h(this := pushed_all adjust (operator_shl adjust (h this) (es ! i)) (drop (Suc i) es)))"
      by simp
    from True "1.prems" have "drop i es = es ! i # drop (Suc i) es"
      by (simp add: Cons_nth_drop_Suc)
    then have unroll: "pushed_all adjust (h this) (drop i es) =
        pushed_all adjust (operator_shl adjust (h this) (es ! i)) (drop (Suc i) es)"
      by (simp add: pushed_all_Cons)
    have first: "plus_eq_loop adjust this v L i h = plus_eq_loop adjust this v L (Suc i) ?h"
      using True idx by (subst plus_eq_loop_unfold) simp
    show ?thesis by (simp only: first step unroll)
  qed
qed

lemma operator_plus_eq_pushed_all:
  "operator_plus_eq adjust this v h = Inr (h(this := pushed_all adjust (h this) (elements (h v))))"
proof -
  have "plus_eq_loop adjust this v (length (elements (h v))) 0 h =
          Inr (h(this := pushed_all adjust (h this) (drop 0 (elements (h v)))))"
    by (rule plus_eq_loop_pushes) simp_all
  then show ?thesis
    by (simp add: operator_plus_eq_def length_V_def)
qed

subsection \<open>The calls of the hook\<close>

text \<open>
  With the logging hook, pushing \<open>es\<close> adds one entry per element, in order, and the
  \<open>k\<close>-th entry shows the vector with the \<open>k\<close>-th element already in it.
\<close>

lemma logging_hook_pushed_all:
  "members (pushed_all logging_hook this es) =
     members this @ map (\<lambda>k. (es ! k, elements this @ take (Suc k) es)) [0..<length es]"
proof (induction es rule: rev_induct)
  case Nil
  show ?case by (simp add: pushed_all_Nil)
next
  case (snoc e es)
  have "map (\<lambda>k. ((es @ [e]) ! k, elements this @ take (Suc k) (es @ [e]))) [0..<length es] =
        map (\<lambda>k. (es ! k, elements this @ take (Suc k) es)) [0..<length es]"
    by (rule map_cong) (simp_all add: nth_append)
  with snoc show ?case
    by (simp add: pushed_all_snoc members_operator_shl logging_hook_def elements_pushed_all)
qed

lemma pushed_all_logging_hook:
  "pushed_all logging_hook this es =
     Vectorized (elements this @ es)
       (members this @ map (\<lambda>k. (es ! k, elements this @ take (Suc k) es)) [0..<length es])"
  by (rule Vectorized.expand) (simp add: elements_pushed_all logging_hook_pushed_all)

text \<open>
  Claim C8. For every hook, every store and all addresses \<open>this\<close> and \<open>v\<close> (equal or
  not), \<^verbatim>\<open>*this += v\<close> returns, and it leaves \<open>this\<close> in the state reached by one
  \<^verbatim>\<open>operator<<\<close> for each element that \<open>v\<close> had at the call, in order, and leaves every
  other object as it was. Each \<^verbatim>\<open>operator<<\<close> is the \<^verbatim>\<open>push_back\<close> followed by one call of
  the hook of \<open>this\<close>: with the logging hook, the log of \<open>this\<close> grows by exactly one
  entry per element of \<open>v\<close>, in the order of \<open>v\<close>, and the entry of the \<open>k\<close>-th element
  shows the vector of \<open>this\<close> with that element already added.
\<close>

theorem operator_plus_eq_pushes_each:
  "operator_plus_eq adjust this v h =
     Inr (h(this := foldl (operator_shl adjust) (h this) (elements (h v)))) \<and>
   operator_plus_eq logging_hook this v g =
     Inr (g(this :=
       Vectorized (elements (g this) @ elements (g v))
         (members (g this) @
          map (\<lambda>k. (elements (g v) ! k, elements (g this) @ take (Suc k) (elements (g v))))
            [0..<length (elements (g v))])))"
proof
  show "operator_plus_eq adjust this v h =
          Inr (h(this := foldl (operator_shl adjust) (h this) (elements (h v))))"
    by (simp only: operator_plus_eq_pushed_all pushed_all_def)
next
  show "operator_plus_eq logging_hook this v g =
     Inr (g(this :=
       Vectorized (elements (g this) @ elements (g v))
         (members (g this) @
          map (\<lambda>k. (elements (g v) ! k, elements (g this) @ take (Suc k) (elements (g v))))
            [0..<length (elements (g v))])))"
    by (simp only: operator_plus_eq_pushed_all pushed_all_logging_hook)
qed

subsection \<open>Length and indexed access\<close>

text \<open>
  Claim C9, as the code has it. A sequence built by pushing \<open>es\<close> onto a new one holds
  exactly \<open>es\<close> in that order, its \<^verbatim>\<open>length()\<close> is the number of pushes, and
  \<^verbatim>\<open>operator[]\<close> yields the \<open>i\<close>-th pushed element when \<open>i\<close> is below the length. At or
  beyond the length the unchecked \<^verbatim>\<open>elements_[i]\<close> is undefined behaviour: the code runs no
  bounds check and raises nothing.
\<close>

theorem pushed_all_length_index:
  "elements (pushed_all adjust (Vectorized_new s d) es) = es \<and>
   length_V (pushed_all adjust (Vectorized_new s d) es) = length es \<and>
   operator_index (pushed_all adjust (Vectorized_new s d) es) i =
     (if i < length es then Inr (es ! i) else Inl Undefined_Behaviour)"
  by (simp add: elements_pushed_all length_V_def operator_index_def Vectorized_new_def)

text \<open>
  Claim C9 as stated fails: on a block with one statement, index 1 is out of range, and
  the outcome of \<^verbatim>\<open>operator[]\<close> is not the error \<open>IndexOutOfRange\<close>.
\<close>

theorem operator_index_out_of_range_counterexample:
  "operator_index
     (operator_shl adjust_after_pushing_Block (Block ''a.scss'' 1 0 False)
        (Content (AST_Node ''a.scss'' 2))) 1
   \<noteq> Inl IndexOutOfRange"
  by (simp add: operator_index_def elements_operator_shl Block_def Vectorized_new_def)

section \<open>Blocks\<close>

lemma has_hoistable_pushed_all:
  "has_hoistable (members (pushed_all adjust_after_pushing_Block b ss)) =
     (has_hoistable (members b) \<or> (\<exists>x\<in>set ss. is_hoistable x))"
proof (induction ss rule: rev_induct)
  case Nil
  show ?case by (simp add: pushed_all_Nil)
next
  case (snoc x ss)
  then show ?case
    by (auto simp add: pushed_all_snoc members_operator_shl adjust_after_pushing_Block_def)
qed

lemma has_hoistable_operator_shl:
  "has_hoistable (members (operator_shl adjust_after_pushing_Block b x)) =
     (has_hoistable (members b) \<or> is_hoistable x)"
  by (simp add: members_operator_shl adjust_after_pushing_Block_def)

lemma is_hoistable_iff: "is_hoistable x = (\<exists>n sel b. x = Ruleset n sel b)"
  by (cases x) simp_all

text \<open>
  Claim C4. For a block built from the constructor by any sequence of pushes: if one of
  the pushed statements is a \<^verbatim>\<open>Ruleset\<close>, \<^verbatim>\<open>has_hoistable\<close> is true; if none of them is
  hoistable, it is false; and a statement is hoistable exactly when it is a \<^verbatim>\<open>Ruleset\<close>.
\<close>

theorem Block_has_hoistable_iff_Ruleset:
  "((\<exists>x\<in>set ss. \<exists>n sel b. x = Ruleset n sel b) \<longrightarrow>
      has_hoistable (members (pushed_all adjust_after_pushing_Block (Block p l s r) ss))) \<and>
   ((\<forall>x\<in>set ss. \<not> is_hoistable x) \<longrightarrow>
      \<not> has_hoistable (members (pushed_all adjust_after_pushing_Block (Block p l s r) ss))) \<and>
   (is_hoistable x = (\<exists>n sel b. x = Ruleset n sel b))"
proof -
  have "has_hoistable (members (pushed_all adjust_after_pushing_Block (Block p l s r) ss)) =
          (\<exists>x\<in>set ss. is_hoistable x)"
    by (simp add: has_hoistable_pushed_all Block_def Vectorized_new_def)
  then show ?thesis
    using is_hoistable_iff by blast
qed

text \<open>
  Claim C4 at a root block with a declaration and a ruleset, and at one with a declaration
  and a \<^verbatim>\<open>@content\<close>.
\<close>

theorem Block_has_hoistable_iff_Ruleset_witness:
  "has_hoistable (members (pushed_all adjust_after_pushing_Block (Block ''a.scss'' 1 0 True)
      [Declaration (AST_Node ''a.scss'' 2) (Some 10) (Some 11) False,
       Ruleset (AST_Node ''a.scss'' 3) (Some 12) None])) \<and>
   \<not> has_hoistable (members (pushed_all adjust_after_pushing_Block (Block ''a.scss'' 1 0 True)
      [Declaration (AST_Node ''a.scss'' 2) (Some 10) (Some 11) False,
       Content (AST_Node ''a.scss'' 3)])) \<and>
   is_hoistable (Ruleset (AST_Node ''a.scss'' 3) (Some 12) None)"
  using
    Block_has_hoistable_iff_Ruleset [of
      "[Declaration (AST_Node ''a.scss'' 2) (Some 10) (Some 11) False,
        Ruleset (AST_Node ''a.scss'' 3) (Some 12) None]"
      "''a.scss''" 1 0 True "Ruleset (AST_Node ''a.scss'' 3) (Some 12) None"]
    Block_has_hoistable_iff_Ruleset [of
      "[Declaration (AST_Node ''a.scss'' 2) (Some 10) (Some 11) False,
        Content (AST_Node ''a.scss'' 3)]"
      "''a.scss''" 1 0 True "Content (AST_Node ''a.scss'' 3)"]
  by simp

text \<open>
  Claim C3 asks that pushing a statement that is not hoistable set \<^verbatim>\<open>has_non_hoistable\<close>.
  The \<^verbatim>\<open>else\<close> branch of the hook assigns \<^verbatim>\<open>false\<close>: after a declaration is pushed onto
  a new block the flag is false, and on a block whose flag was true (set through the
  setter of the property) the push clears it.
\<close>

theorem Block_non_hoistable_push_clears_flag:
  "has_non_hoistable (members (operator_shl adjust_after_pushing_Block (Block ''a.scss'' 1 0 False)
      (Declaration (AST_Node ''a.scss'' 2) (Some 10) (Some 11) False))) = False \<and>
   has_non_hoistable (members (operator_shl adjust_after_pushing_Block
      (Vectorized [Comment (AST_Node ''a.scss'' 2) (Some 10)]
         \<lparr>path = ''a.scss'', line = 1, is_root = False, has_hoistable = False,
          has_non_hoistable = True\<rparr>)
      (Declaration (AST_Node ''a.scss'' 3) (Some 11) (Some 12) False))) = False"
  by (simp add: members_operator_shl adjust_after_pushing_Block_def Block_def Vectorized_new_def)

section \<open>Parameters and arguments\<close>

lemma if_then_skip_id: "if_then_skip c s = s"
  by (simp add: if_then_skip_def skip_def)

text \<open>
  Claim C1 asks that the orders (optional, required), (rest, required) and (optional,
  rest, optional) be rejected with \<open>ParameterOrderingViolation\<close>. The hook tests for
  them and does nothing in those branches: each of the three sequences is built to the
  end, every parameter stored and the flags set.
\<close>

theorem Parameters_hook_records_rejected_orders:
  "pushed_all adjust_after_pushing_Parameters (Parameters ''a.scss'' 1)
     [Parameter ''a.scss'' 1 ''b'' (Some 10) False, Parameter ''a.scss'' 1 ''a'' None False]
   = Vectorized
       [Parameter ''a.scss'' 1 ''b'' (Some 10) False, Parameter ''a.scss'' 1 ''a'' None False]
       \<lparr>path = ''a.scss'', line = 1, has_optional_parameters = True, has_rest_parameter = False\<rparr> \<and>
   pushed_all adjust_after_pushing_Parameters (Parameters ''a.scss'' 1)
     [Parameter ''a.scss'' 1 ''c'' None True, Parameter ''a.scss'' 1 ''a'' None False]
   = Vectorized
       [Parameter ''a.scss'' 1 ''c'' None True, Parameter ''a.scss'' 1 ''a'' None False]
       \<lparr>path = ''a.scss'', line = 1, has_optional_parameters = False, has_rest_parameter = True\<rparr> \<and>
   pushed_all adjust_after_pushing_Parameters (Parameters ''a.scss'' 1)
     [Parameter ''a.scss'' 1 ''b'' (Some 10) False, Parameter ''a.scss'' 1 ''c'' None True,
      Parameter ''a.scss'' 1 ''d'' (Some 11) False]
   = Vectorized
       [Parameter ''a.scss'' 1 ''b'' (Some 10) False, Parameter ''a.scss'' 1 ''c'' None True,
        Parameter ''a.scss'' 1 ''d'' (Some 11) False]
       \<lparr>path = ''a.scss'', line = 1, has_optional_parameters = True, has_rest_parameter = True\<rparr>"
  by (simp add: pushed_all_def operator_shl_def push_back_def adjust_after_pushing_Parameters_def
      Parameters_def Parameter_def Vectorized_new_def if_then_skip_id skip_def)

text \<open>
  Claim C2 asks that a positional argument after a named one or after a rest argument be
  rejected with \<open>ArgumentOrderingViolation\<close>, and that the constructor reject a name
  together with the rest flag. The code tests for each and does nothing: both sequences
  are built to the end, and the constructor returns the argument.
\<close>

theorem Arguments_hook_records_rejected_orders:
  "pushed_all adjust_after_pushing_Arguments (Arguments ''a.scss'' 1)
     [Argument ''a.scss'' 1 (Some 10) ''x'' False, Argument ''a.scss'' 1 (Some 11) [] False]
   = Vectorized
       [Argument ''a.scss'' 1 (Some 10) ''x'' False, Argument ''a.scss'' 1 (Some 11) [] False]
       \<lparr>path = ''a.scss'', line = 1, has_named_arguments = True, has_rest_argument = False\<rparr> \<and>
   pushed_all adjust_after_pushing_Arguments (Arguments ''a.scss'' 1)
     [Argument ''a.scss'' 1 (Some 10) [] True, Argument ''a.scss'' 1 (Some 11) [] False]
   = Vectorized
       [Argument ''a.scss'' 1 (Some 10) [] True, Argument ''a.scss'' 1 (Some 11) [] False]
       \<lparr>path = ''a.scss'', line = 1, has_named_arguments = False, has_rest_argument = True\<rparr> \<and>
   Argument ''a.scss'' 1 (Some 10) ''x'' True
   = \<lparr>path = ''a.scss'', line = 1, value = Some 10, Argument_name = ''x'', is_rest_argument = True\<rparr>"
  by (simp add: pushed_all_def operator_shl_def push_back_def adjust_after_pushing_Arguments_def
      Arguments_def Argument_def Vectorized_new_def if_then_skip_id)

text \<open>
  Claim C5 asks that the constructor reject a default value together with the rest flag
  with \<open>InvalidParameterDefault\<close>. The body of the constructor is a comment: the
  parameter is constructed.
\<close>

theorem Parameter_with_default_and_rest_is_constructed:
  "Parameter ''a.scss'' 1 ''x'' (Some 10) True
   = \<lparr>path = ''a.scss'', line = 1, Parameter_name = ''x'', default_value = Some 10,
      is_rest_parameter = True\<rparr>"
  by (simp add: Parameter_def skip_def)

text \<open>
  Claim C10. The hook of \<^verbatim>\<open>Parameters\<close> tests the default value before the rest flag:
  pushing a parameter that has both stores it, sets \<^verbatim>\<open>has_optional_parameters\<close> and leaves
  \<^verbatim>\<open>has_rest_parameter\<close> as it was. The hook of \<^verbatim>\<open>Arguments\<close> tests the name before the
  rest flag: pushing an argument that has both stores it, sets \<^verbatim>\<open>has_named_arguments\<close>
  and leaves \<^verbatim>\<open>has_rest_argument\<close> as it was.
\<close>

theorem default_and_name_tests_come_first:
  "(default_value p \<noteq> None \<and> is_rest_parameter p \<longrightarrow>
      elements (operator_shl adjust_after_pushing_Parameters ps p) = elements ps @ [p] \<and>
      has_optional_parameters (members (operator_shl adjust_after_pushing_Parameters ps p)) \<and>
      has_rest_parameter (members (operator_shl adjust_after_pushing_Parameters ps p)) =
        has_rest_parameter (members ps)) \<and>
   (Argument_name a \<noteq> [] \<and> is_rest_argument a \<longrightarrow>
      elements (operator_shl adjust_after_pushing_Arguments as a) = elements as @ [a] \<and>
      has_named_arguments (members (operator_shl adjust_after_pushing_Arguments as a)) \<and>
      has_rest_argument (members (operator_shl adjust_after_pushing_Arguments as a)) =
        has_rest_argument (members as))"
  by (simp add: elements_operator_shl members_operator_shl adjust_after_pushing_Parameters_def
      adjust_after_pushing_Arguments_def if_then_skip_id)

text \<open>
  Claim C10 at a parameter and an argument that the constructors build with both, pushed
  onto new lists.
\<close>

theorem default_and_name_tests_come_first_witness:
  "default_value (Parameter ''a.scss'' 1 ''x'' (Some 10) True) \<noteq> None \<and>
   is_rest_parameter (Parameter ''a.scss'' 1 ''x'' (Some 10) True) \<and>
   elements (operator_shl adjust_after_pushing_Parameters (Parameters ''a.scss'' 1)
      (Parameter ''a.scss'' 1 ''x'' (Some 10) True)) = [Parameter ''a.scss'' 1 ''x'' (Some 10) True] \<and>
   has_optional_parameters (members (operator_shl adjust_after_pushing_Parameters
      (Parameters ''a.scss'' 1) (Parameter ''a.scss'' 1 ''x'' (Some 10) True))) \<and>
   has_rest_parameter (members (operator_shl adjust_after_pushing_Parameters
      (Parameters ''a.scss'' 1) (Parameter ''a.scss'' 1 ''x'' (Some 10) True))) = False \<and>
   Argument_name (Argument ''a.scss'' 1 (Some 10) ''x'' True) \<noteq> [] \<and>
   is_rest_argument (Argument ''a.scss'' 1 (Some 10) ''x'' True) \<and>
   elements (operator_shl adjust_after_pushing_Arguments (Arguments ''a.scss'' 1)
      (Argument ''a.scss'' 1 (Some 10) ''x'' True)) = [Argument ''a.scss'' 1 (Some 10) ''x'' True] \<and>
   has_named_arguments (members (operator_shl adjust_after_pushing_Arguments
      (Arguments ''a.scss'' 1) (Argument ''a.scss'' 1 (Some 10) ''x'' True))) \<and>
   has_rest_argument (members (operator_shl adjust_after_pushing_Arguments
      (Arguments ''a.scss'' 1) (Argument ''a.scss'' 1 (Some 10) ''x'' True))) = False"
proof -
  have p: "default_value (Parameter ''a.scss'' 1 ''x'' (Some 10) True) \<noteq> None \<and>
           is_rest_parameter (Parameter ''a.scss'' 1 ''x'' (Some 10) True)"
    by (simp add: Parameter_def skip_def)
  have a: "Argument_name (Argument ''a.scss'' 1 (Some 10) ''x'' True) \<noteq> [] \<and>
           is_rest_argument (Argument ''a.scss'' 1 (Some 10) ''x'' True)"
    by (simp add: Argument_def if_then_skip_def skip_def)
  have ps: "elements (Parameters ''a.scss'' 1) = [] \<and>
            has_rest_parameter (members (Parameters ''a.scss'' 1)) = False"
    by (simp add: Parameters_def Vectorized_new_def)
  have as: "elements (Arguments ''a.scss'' 1) = [] \<and>
            has_rest_argument (members (Arguments ''a.scss'' 1)) = False"
    by (simp add: Arguments_def Vectorized_new_def)
  show ?thesis
    using p a ps as
      default_and_name_tests_come_first [of
        "Parameter ''a.scss'' 1 ''x'' (Some 10) True" "Parameters ''a.scss'' 1"
        "Argument ''a.scss'' 1 (Some 10) ''x'' True" "Arguments ''a.scss'' 1"]
    by simp
qed

section \<open>Selectors\<close>

text \<open>
  The getter of a \<^verbatim>\<open>Selector_Combination\<close> returns the member that the constructor does
  not initialise, whatever head and tail are; the flag of its base is the head's flag or
  what the getter of the tail returns.
\<close>

lemma Selector_Combination_getter_reads_storage:
  "Selector_Combination_has_reference (Selector_Combination p l c h t storage_r storage_p) = storage_r \<and>
   Selector_Combination_has_placeholder (Selector_Combination p l c h t storage_r storage_p) = storage_p"
  by (simp add: Selector_Combination_def)

lemma Selector_Combination_base_flags:
  "has_reference (Selector_base (Selector_Combination p l c h t storage_r storage_p)) =
     ((case h of None \<Rightarrow> False | Some hs \<Rightarrow> has_reference (members hs)) \<or>
      (case t of None \<Rightarrow> False | Some ts \<Rightarrow> Selector_Combination_has_reference ts))"
  by (simp add: Selector_Combination_def Selector_def)

text \<open>
  Claim C6 asks that \<^verbatim>\<open>has_reference\<close> of \<^verbatim>\<open>ANCESTOR_OF(A, PARENT_OF(B, null))\<close> be
  \<^verbatim>\<open>A.has_reference OR B.has_reference\<close>. Here \<open>A\<close> is an empty sequence, \<open>B\<close> holds a
  parent reference, and the storage of both combinations held \<^verbatim>\<open>false\<close>. The accessors
  give \<open>B\<close> as the head of the tail and null as its tail, \<open>B\<close> has a reference, and yet
  both the getter of the outer combination and the flag of its \<^verbatim>\<open>Selector\<close> base are false.
\<close>

theorem Selector_Combination_flag_misses_tail_reference:
  "tail (Selector_Combination ''a.scss'' 1 ANCESTOR_OF
           (Some (Simple_Selector_Sequence ''a.scss'' 1 0))
           (Some (Selector_Combination ''a.scss'' 1 PARENT_OF
              (Some (operator_shl adjust_after_pushing_Simple_Selector_Sequence
                 (Simple_Selector_Sequence ''a.scss'' 1 0) (Selector_Reference ''a.scss'' 1)))
              None False False))
           False False)
   = Some (Selector_Combination ''a.scss'' 1 PARENT_OF
              (Some (operator_shl adjust_after_pushing_Simple_Selector_Sequence
                 (Simple_Selector_Sequence ''a.scss'' 1 0) (Selector_Reference ''a.scss'' 1)))
              None False False) \<and>
   head (Selector_Combination ''a.scss'' 1 PARENT_OF
              (Some (operator_shl adjust_after_pushing_Simple_Selector_Sequence
                 (Simple_Selector_Sequence ''a.scss'' 1 0) (Selector_Reference ''a.scss'' 1)))
              None False False)
   = Some (operator_shl adjust_after_pushing_Simple_Selector_Sequence
             (Simple_Selector_Sequence ''a.scss'' 1 0) (Selector_Reference ''a.scss'' 1)) \<and>
   tail (Selector_Combination ''a.scss'' 1 PARENT_OF
              (Some (operator_shl adjust_after_pushing_Simple_Selector_Sequence
                 (Simple_Selector_Sequence ''a.scss'' 1 0) (Selector_Reference ''a.scss'' 1)))
              None False False)
   = None \<and>
   has_reference (members (Simple_Selector_Sequence ''a.scss'' 1 0)) = False \<and>
   has_reference (members (operator_shl adjust_after_pushing_Simple_Selector_Sequence
      (Simple_Selector_Sequence ''a.scss'' 1 0) (Selector_Reference ''a.scss'' 1))) = True \<and>
   Selector_Combination_has_reference
     (Selector_Combination ''a.scss'' 1 ANCESTOR_OF
           (Some (Simple_Selector_Sequence ''a.scss'' 1 0))
           (Some (Selector_Combination ''a.scss'' 1 PARENT_OF
              (Some (operator_shl adjust_after_pushing_Simple_Selector_Sequence
                 (Simple_Selector_Sequence ''a.scss'' 1 0) (Selector_Reference ''a.scss'' 1)))
              None False False))
           False False) = False \<and>
   has_reference (Selector_base
     (Selector_Combination ''a.scss'' 1 ANCESTOR_OF
           (Some (Simple_Selector_Sequence ''a.scss'' 1 0))
           (Some (Selector_Combination ''a.scss'' 1 PARENT_OF
              (Some (operator_shl adjust_after_pushing_Simple_Selector_Sequence
                 (Simple_Selector_Sequence ''a.scss'' 1 0) (Selector_Reference ''a.scss'' 1)))
              None False False))
           False False)) = False"
  by (simp add: Selector_Combination_def Selector_def Simple_Selector_Sequence_def
      Vectorized_new_def members_operator_shl adjust_after_pushing_Simple_Selector_Sequence_def
      Selector_Reference_def Simple_Selector_def)

text \<open>The flags of sequences and groups accumulate the flags that the pushed elements report.\<close>

lemma Sequence_flags_pushed_all:
  "has_reference (members (pushed_all adjust_after_pushing_Simple_Selector_Sequence this ss)) =
     (has_reference (members this) \<or> list_ex (\<lambda>x. has_reference (Selector_part x)) ss) \<and>
   has_placeholder (members (pushed_all adjust_after_pushing_Simple_Selector_Sequence this ss)) =
     (has_placeholder (members this) \<or> list_ex (\<lambda>x. has_placeholder (Selector_part x)) ss)"
proof (induction ss rule: rev_induct)
  case Nil
  show ?case by (simp add: pushed_all_Nil)
next
  case (snoc x ss)
  then show ?case
    by (auto simp add: pushed_all_snoc members_operator_shl
        adjust_after_pushing_Simple_Selector_Sequence_def)
qed

lemma Group_flags_pushed_all:
  "Selector_Group_has_reference (members (pushed_all adjust_after_pushing_Selector_Group this cs)) =
     (Selector_Group_has_reference (members this) \<or> list_ex Selector_Combination_has_reference cs) \<and>
   Selector_Group_has_placeholder (members (pushed_all adjust_after_pushing_Selector_Group this cs)) =
     (Selector_Group_has_placeholder (members this) \<or> list_ex Selector_Combination_has_placeholder cs)"
proof (induction cs rule: rev_induct)
  case Nil
  show ?case by (simp add: pushed_all_Nil)
next
  case (snoc x cs)
  then show ?case
    by (auto simp add: pushed_all_snoc members_operator_shl adjust_after_pushing_Selector_Group_def)
qed

lemma spec_contained_self: "s \<in> set (spec_contained s)"
  by (induction s rule: spec_contained.induct) simp_all

lemma direct_flag_is_contained_flag:
  "list_ex P ss \<Longrightarrow> list_ex P (concat (map spec_contained ss))"
  using spec_contained_self by (fastforce simp add: list_ex_iff)

text \<open>
  Claim C7, as the code has it. For a \<^verbatim>\<open>Simple_Selector_Sequence\<close> built from the
  constructor by pushes, \<^verbatim>\<open>has_reference\<close> is the disjunction of \<^verbatim>\<open>has_reference\<close> of the
  pushed simple selectors themselves, and likewise \<^verbatim>\<open>has_placeholder\<close>; a sequence of a
  \<^verbatim>\<open>Selector_Placeholder\<close> and a \<^verbatim>\<open>Type_Selector\<close> has \<^verbatim>\<open>has_placeholder\<close> true and
  \<^verbatim>\<open>has_reference\<close> false; a flag of the sequence is set only if a contained simple
  selector has it (so with none anywhere below, both are false). For a
  \<^verbatim>\<open>Selector_Group\<close>, the flag is the disjunction of what the getters of the pushed
  combinations return.
\<close>

theorem Sequence_and_Group_flags_of_direct_elements:
  "has_reference (members (pushed_all adjust_after_pushing_Simple_Selector_Sequence
      (Simple_Selector_Sequence p l s) ss)) = list_ex (\<lambda>x. has_reference (Selector_part x)) ss \<and>
   has_placeholder (members (pushed_all adjust_after_pushing_Simple_Selector_Sequence
      (Simple_Selector_Sequence p l s) ss)) = list_ex (\<lambda>x. has_placeholder (Selector_part x)) ss \<and>
   has_placeholder (members (pushed_all adjust_after_pushing_Simple_Selector_Sequence
      (Simple_Selector_Sequence p l s) [Selector_Placeholder p1 l1 n1, Type_Selector p2 l2 n2])) = True \<and>
   has_reference (members (pushed_all adjust_after_pushing_Simple_Selector_Sequence
      (Simple_Selector_Sequence p l s) [Selector_Placeholder p1 l1 n1, Type_Selector p2 l2 n2])) = False \<and>
   (has_reference (members (pushed_all adjust_after_pushing_Simple_Selector_Sequence
      (Simple_Selector_Sequence p l s) ss)) \<longrightarrow>
    spec_has_reference_Sequence (pushed_all adjust_after_pushing_Simple_Selector_Sequence
      (Simple_Selector_Sequence p l s) ss)) \<and>
   (has_placeholder (members (pushed_all adjust_after_pushing_Simple_Selector_Sequence
      (Simple_Selector_Sequence p l s) ss)) \<longrightarrow>
    spec_has_placeholder_Sequence (pushed_all adjust_after_pushing_Simple_Selector_Sequence
      (Simple_Selector_Sequence p l s) ss)) \<and>
   Selector_Group_has_reference (members (pushed_all adjust_after_pushing_Selector_Group
      (Selector_Group p l s) cs)) = list_ex Selector_Combination_has_reference cs \<and>
   Selector_Group_has_placeholder (members (pushed_all adjust_after_pushing_Selector_Group
      (Selector_Group p l s) cs)) = list_ex Selector_Combination_has_placeholder cs"
proof -
  let ?seq = "pushed_all adjust_after_pushing_Simple_Selector_Sequence (Simple_Selector_Sequence p l s)"
  have r: "has_reference (members (?seq xs)) = list_ex (\<lambda>x. has_reference (Selector_part x)) xs" for xs
    by (simp add: Sequence_flags_pushed_all Simple_Selector_Sequence_def Vectorized_new_def Selector_def)
  have h: "has_placeholder (members (?seq xs)) = list_ex (\<lambda>x. has_placeholder (Selector_part x)) xs" for xs
    by (simp add: Sequence_flags_pushed_all Simple_Selector_Sequence_def Vectorized_new_def Selector_def)
  have e: "elements (?seq ss) = ss"
    by (simp add: elements_pushed_all Simple_Selector_Sequence_def Vectorized_new_def)
  have ex1: "has_placeholder (members (?seq [Selector_Placeholder p1 l1 n1, Type_Selector p2 l2 n2])) = True"
    by (simp add: h Selector_Placeholder_def Type_Selector_def Simple_Selector_def Selector_def)
  have ex2: "has_reference (members (?seq [Selector_Placeholder p1 l1 n1, Type_Selector p2 l2 n2])) = False"
    by (simp add: r Selector_Placeholder_def Type_Selector_def Simple_Selector_def Selector_def)
  have sr: "has_reference (members (?seq ss)) \<longrightarrow> spec_has_reference_Sequence (?seq ss)"
    by (simp add: r e spec_has_reference_Sequence_def spec_contained_Sequence_def
        direct_flag_is_contained_flag)
  have sh: "has_placeholder (members (?seq ss)) \<longrightarrow> spec_has_placeholder_Sequence (?seq ss)"
    by (simp add: h e spec_has_placeholder_Sequence_def spec_contained_Sequence_def
        direct_flag_is_contained_flag)
  have g: "Selector_Group_has_reference (members (pushed_all adjust_after_pushing_Selector_Group
      (Selector_Group p l s) cs)) = list_ex Selector_Combination_has_reference cs \<and>
   Selector_Group_has_placeholder (members (pushed_all adjust_after_pushing_Selector_Group
      (Selector_Group p l s) cs)) = list_ex Selector_Combination_has_placeholder cs"
    by (simp add: Group_flags_pushed_all Selector_Group_def Vectorized_new_def)
  from r [of ss] h [of ss] ex1 ex2 sr sh g show ?thesis
    by blast
qed

text \<open>
  Claim C7 as stated fails: the sequence that holds \<^verbatim>\<open>:not(&)\<close> contains a parent
  reference, inside the negation, and its \<^verbatim>\<open>has_reference\<close> is false.
\<close>

theorem Sequence_flag_misses_negated_reference_counterexample:
  "has_reference (members (pushed_all adjust_after_pushing_Simple_Selector_Sequence
      (Simple_Selector_Sequence ''a.scss'' 1 0)
      [Negated_Selector ''a.scss'' 1 (Some (Selector_Reference ''a.scss'' 1))]))
   \<noteq> spec_has_reference_Sequence (pushed_all adjust_after_pushing_Simple_Selector_Sequence
      (Simple_Selector_Sequence ''a.scss'' 1 0)
      [Negated_Selector ''a.scss'' 1 (Some (Selector_Reference ''a.scss'' 1))])"
  by (simp add: pushed_all_def operator_shl_def push_back_def
      adjust_after_pushing_Simple_Selector_Sequence_def Simple_Selector_Sequence_def
      Vectorized_new_def Selector_def Negated_Selector_def Selector_Reference_def
      Simple_Selector_def spec_has_reference_Sequence_def spec_contained_Sequence_def)

text \<open>
  Claim C7, as the code has it, at a sequence of a parent reference and a placeholder, and
  at a group of one combination whose getters return true and false.
\<close>

theorem Sequence_and_Group_flags_of_direct_elements_witness:
  "has_reference (members (pushed_all adjust_after_pushing_Simple_Selector_Sequence
      (Simple_Selector_Sequence ''a.scss'' 1 0)
      [Selector_Reference ''a.scss'' 1, Selector_Placeholder ''a.scss'' 1 ''foo''])) \<and>
   has_placeholder (members (pushed_all adjust_after_pushing_Simple_Selector_Sequence
      (Simple_Selector_Sequence ''a.scss'' 1 0)
      [Selector_Reference ''a.scss'' 1, Selector_Placeholder ''a.scss'' 1 ''foo''])) \<and>
   spec_has_reference_Sequence (pushed_all adjust_after_pushing_Simple_Selector_Sequence
      (Simple_Selector_Sequence ''a.scss'' 1 0)
      [Selector_Reference ''a.scss'' 1, Selector_Placeholder ''a.scss'' 1 ''foo'']) \<and>
   spec_has_placeholder_Sequence (pushed_all adjust_after_pushing_Simple_Selector_Sequence
      (Simple_Selector_Sequence ''a.scss'' 1 0)
      [Selector_Reference ''a.scss'' 1, Selector_Placeholder ''a.scss'' 1 ''foo'']) \<and>
   Selector_Group_has_reference (members (pushed_all adjust_after_pushing_Selector_Group
      (Selector_Group ''a.scss'' 1 0)
      [Selector_Combination ''a.scss'' 1 PARENT_OF None None True False])) \<and>
   \<not> Selector_Group_has_placeholder (members (pushed_all adjust_after_pushing_Selector_Group
      (Selector_Group ''a.scss'' 1 0)
      [Selector_Combination ''a.scss'' 1 PARENT_OF None None True False]))"
  using Sequence_and_Group_flags_of_direct_elements [where p = "''a.scss''" and l = 1 and s = 0
      and ss = "[Selector_Reference ''a.scss'' 1, Selector_Placeholder ''a.scss'' 1 ''foo'']"
      and cs = "[Selector_Combination ''a.scss'' 1 PARENT_OF None None True False]"]
  by (simp add: Selector_Reference_def Selector_Placeholder_def Simple_Selector_def Selector_def
      Selector_Combination_def)

end
